theory Spec2Isabelle
  imports Complex_Main "HOL-Library.Char_ord" "HOL-Library.List_Lexorder"
begin

section \<open>Calendar dates\<close>

text \<open>
  A calendar day is its proleptic Gregorian ordinal (day 1 is 0001-01-01), the number
  Python's \<open>datetime.toordinal\<close> returns. \<open>datetime + timedelta(days=n)\<close> adds \<open>n\<close> to
  the ordinal, and dates compare as their ordinals do. The text form \<open>YYYY-MM-DD\<close> written
  by \<open>strftime\<close> and read back by \<open>pd.to_datetime\<close> denotes the same day, so a stored date
  column holds the day itself. The conversions between ordinals and year, month, day
  follow the standard library's \<open>_ymd2ord\<close> and \<open>_ord2ymd\<close>.
\<close>

type_synonym date = int

definition is_leap :: "int \<Rightarrow> bool" where
  "is_leap year = (year mod 4 = 0 \<and> (year mod 100 \<noteq> 0 \<or> year mod 400 = 0))"

definition days_before_year :: "int \<Rightarrow> int" where
  "days_before_year year =
     (let y = year - 1 in y * 365 + y div 4 - y div 100 + y div 400)"

definition DAYS_IN_MONTH :: "int list" where
  "DAYS_IN_MONTH = [-1, 31, 28, 31, 30, 31, 30, 31, 31, 30, 31, 30, 31]"

definition DAYS_BEFORE_MONTH :: "int list" where
  "DAYS_BEFORE_MONTH = [-1, 0, 31, 59, 90, 120, 151, 181, 212, 243, 273, 304, 334]"

definition days_before_month :: "int \<Rightarrow> int \<Rightarrow> int" where
  "days_before_month year month =
     DAYS_BEFORE_MONTH ! nat month + (if 2 < month \<and> is_leap year then 1 else 0)"

definition ymd2ord :: "int \<Rightarrow> int \<Rightarrow> int \<Rightarrow> date" where
  "ymd2ord year month day = days_before_year year + days_before_month year month + day"

definition ord2ymd :: "date \<Rightarrow> int \<times> int \<times> int" where
  "ord2ymd n0 =
     (let n = n0 - 1;
          n400 = n div 146097; n = n mod 146097;
          year = n400 * 400 + 1;
          n100 = n div 36524; n = n mod 36524;
          n4 = n div 1461; n = n mod 1461;
          n1 = n div 365; n = n mod 365;
          year = year + n100 * 100 + n4 * 4 + n1
      in if n1 = 4 \<or> n100 = 4 then (year - 1, 12, 31)
         else
           let leapyear = (n1 = 3 \<and> (n4 \<noteq> 24 \<or> n100 = 3));
               month = (n + 50) div 32;
               preceding = DAYS_BEFORE_MONTH ! nat month
                             + (if 2 < month \<and> leapyear then 1 else 0)
           in if n < preceding
              then
                let month = month - 1;
                    preceding = preceding
                                  - (DAYS_IN_MONTH ! nat month
                                       + (if month = 2 \<and> leapyear then 1 else 0))
                in (year, month, n - preceding + 1)
              else (year, month, n - preceding + 1))"

definition timedelta_add :: "date \<Rightarrow> int \<Rightarrow> date" where
  "timedelta_add d days = d + days"

text \<open>The accessors \<open>.dt.month\<close>, \<open>.dt.dayofweek\<close> (Monday is 0) and \<open>.dt.quarter\<close>.\<close>

definition dt_month :: "date \<Rightarrow> int" where
  "dt_month d = fst (snd (ord2ymd d))"

definition dt_dayofweek :: "date \<Rightarrow> int" where
  "dt_dayofweek d = (d + 6) mod 7"

definition dt_quarter :: "date \<Rightarrow> int" where
  "dt_quarter d = (dt_month d - 1) div 3 + 1"

section \<open>Numbers\<close>

text \<open>
  Prices and amounts are real numbers; the rounding error of binary floating-point
  arithmetic is not part of the model. \<open>round(x, 2)\<close> rounds to the nearest multiple of
  one hundredth, a tie going to the even neighbour.
\<close>

definition round_half_even :: "real \<Rightarrow> int" where
  "round_half_even x =
     (let f = \<lfloor>x\<rfloor>; r = x - of_int f
      in if r < 1 / 2 then f else if 1 / 2 < r then f + 1 else if even f then f else f + 1)"

definition round2 :: "real \<Rightarrow> real" where
  "round2 x = of_int (round_half_even (x * 100)) / 100"

text \<open>
  \<open>np.random.uniform(low, high)\<close> scales a sample \<open>u\<close> of the half-open unit interval.
\<close>

definition np_uniform :: "real \<Rightarrow> real \<Rightarrow> real \<Rightarrow> real" where
  "np_uniform low high u = low + (high - low) * u"

fun str_nat :: "nat \<Rightarrow> string" where
  "str_nat n =
     (if n < 10 then [''0123456789'' ! n]
      else str_nat (n div 10) @ [''0123456789'' ! (n mod 10)])"

section \<open>The generator\<close>

definition categories :: "(string \<times> string list) list" where
  "categories =
     [(''Electronics'',
         [''Smartphones'', ''Laptops'', ''Headphones'', ''Tablets'', ''Cameras'',
          ''Smart Watches'']),
      (''Clothing'',
         [''Men's Fashion'', ''Women's Fashion'', ''Kids' Fashion'', ''Shoes'',
          ''Accessories'']),
      (''Books'',
         [''Fiction'', ''Non-Fiction'', ''Educational'', ''Children's Books'', ''Comics'']),
      (''Home & Kitchen'',
         [''Furniture'', ''Kitchen Appliances'', ''Decor'', ''Bedding'', ''Cookware'']),
      (''Sports & Outdoors'',
         [''Fitness Equipment'', ''Camping Gear'', ''Sports Apparel'',
          ''Outdoor Recreation''])]"

definition payment_methods :: "string list" where
  "payment_methods =
     [''Credit Card'', ''Debit Card'', ''UPI'', ''Net Banking'', ''Cash on Delivery'',
      ''Amazon Pay'']"

definition customer_segments :: "string list" where
  "customer_segments = [''New'', ''Regular'', ''Prime'', ''Premium'']"

definition cities :: "string list" where
  "cities =
     [''Mumbai'', ''Delhi'', ''Bangalore'', ''Chennai'', ''Kolkata'', ''Pune'', ''Hyderabad'',
      ''Ahmedabad'']"

definition gen_start_date :: date where
  "gen_start_date = ymd2ord 2023 1 1"

text \<open>
  One loop iteration consumes fifteen random draws, in the order of the fields below.
  The two seeded generators are deterministic, so a run is a fixed sequence of such
  draws; the model takes the sequence as a parameter, and \<open>valid_draws\<close> says that each
  draw lies in the support of the call that makes it: \<open>random.choice\<close> and
  \<open>np.random.choice\<close> return an element of their list, \<open>np.random.randint(a, b)\<close> an
  integer from \<open>a\<close> up to \<open>b - 1\<close>, \<open>random.randint(a, b)\<close> an integer from \<open>a\<close> up to \<open>b\<close>,
  and the unit sample behind \<open>np.random.uniform\<close> is at least 0 and below 1.
\<close>

record draws =
  d_category :: string
  d_subcategory :: string
  d_price :: real
  d_quantity :: int
  d_discount_percent :: int
  d_rating :: int
  d_review_length :: string
  d_delivery_days :: int
  d_delivery_status :: string
  d_return_status :: string
  d_customer_segment :: string
  d_payment_method :: string
  d_city :: string
  d_order_offset :: int
  d_profit :: real

definition valid_draws :: "draws \<Rightarrow> bool" where
  "valid_draws d =
     (d_category d \<in> set (map fst categories) \<and>
      (case map_of categories (d_category d) of
         None \<Rightarrow> False
       | Some subs \<Rightarrow> d_subcategory d \<in> set subs) \<and>
      0 \<le> d_price d \<and> d_price d < 1 \<and>
      1 \<le> d_quantity d \<and> d_quantity d < 6 \<and>
      d_discount_percent d \<in> set [0, 5, 10, 15, 20, 25, 30] \<and>
      d_rating d \<in> set [1, 2, 3, 4, 5] \<and>
      d_review_length d \<in> set [''Short'', ''Medium'', ''Long''] \<and>
      1 \<le> d_delivery_days d \<and> d_delivery_days d < 11 \<and>
      d_delivery_status d \<in> set [''On Time'', ''Delayed'', ''Early''] \<and>
      d_return_status d \<in> set [''No'', ''Yes''] \<and>
      d_customer_segment d \<in> set customer_segments \<and>
      d_payment_method d \<in> set payment_methods \<and>
      d_city d \<in> set cities \<and>
      0 \<le> d_order_offset d \<and> d_order_offset d \<le> 365 \<and>
      0 \<le> d_profit d \<and> d_profit d < 1)"

record raw_sale =
  Order_ID :: string
  Order_Date :: date
  Delivery_Date :: date
  Category :: string
  Subcategory :: string
  Product_Price :: real
  Quantity :: int
  Discount_Percent :: int
  Discount_Amount :: real
  Final_Price :: real
  Payment_Method :: string
  Customer_Segment :: string
  City :: string
  Customer_Rating :: int
  Review_Length :: string
  Delivery_Days :: int
  Delivery_Status :: string
  Returned :: string
  Profit_Margin :: real

text \<open>The values the loop body computes before it rounds and stores them.\<close>

definition price_of :: "draws \<Rightarrow> real" where
  "price_of d =
     (if d_category d = ''Electronics'' then np_uniform 500 150000 (d_price d)
      else if d_category d = ''Clothing'' then np_uniform 200 5000 (d_price d)
      else if d_category d = ''Books'' then np_uniform 100 2000 (d_price d)
      else if d_category d = ''Home & Kitchen'' then np_uniform 300 30000 (d_price d)
      else np_uniform 500 20000 (d_price d))"

definition discount_amount_of :: "draws \<Rightarrow> real" where
  "discount_amount_of d =
     (price_of d * of_int (d_quantity d) * of_int (d_discount_percent d)) / 100"

definition final_price_of :: "draws \<Rightarrow> real" where
  "final_price_of d = (price_of d * of_int (d_quantity d)) - discount_amount_of d"

definition order_date_of :: "draws \<Rightarrow> date" where
  "order_date_of d = timedelta_add gen_start_date (d_order_offset d)"

definition delivery_date_of :: "draws \<Rightarrow> date" where
  "delivery_date_of d = timedelta_add (order_date_of d) (d_delivery_days d)"

definition profit_margin_of :: "draws \<Rightarrow> real" where
  "profit_margin_of d = final_price_of d * np_uniform (2 / 10) (4 / 10) (d_profit d)"

definition make_record :: "nat \<Rightarrow> draws \<Rightarrow> raw_sale" where
  "make_record i d =
     \<lparr> Order_ID = ''ORD'' @ str_nat (10000 + i),
       Order_Date = order_date_of d,
       Delivery_Date = delivery_date_of d,
       Category = d_category d,
       Subcategory = d_subcategory d,
       Product_Price = round2 (price_of d),
       Quantity = d_quantity d,
       Discount_Percent = d_discount_percent d,
       Discount_Amount = round2 (discount_amount_of d),
       Final_Price = round2 (final_price_of d),
       Payment_Method = d_payment_method d,
       Customer_Segment = d_customer_segment d,
       City = d_city d,
       Customer_Rating = d_rating d,
       Review_Length = d_review_length d,
       Delivery_Days = d_delivery_days d,
       Delivery_Status = d_delivery_status d,
       Returned = d_return_status d,
       Profit_Margin = round2 (profit_margin_of d) \<rparr>"

text \<open>The loop \<open>for i in range(n_records)\<close>: iteration \<open>i\<close> appends its record.\<close>

fun gen_loop :: "nat \<Rightarrow> (nat \<Rightarrow> draws) \<Rightarrow> raw_sale list" where
  "gen_loop 0 rng = []"
| "gen_loop (Suc i) rng = gen_loop i rng @ [make_record i (rng i)]"

record sale = raw_sale +
  Order_Month :: int
  Order_DayOfWeek :: int
  Order_Quarter :: int
  Order_DayName :: "string option"

definition day_names :: "(int \<times> string) list" where
  "day_names =
     [(0, ''Monday''), (1, ''Tuesday''), (2, ''Wednesday''), (3, ''Thursday''),
      (4, ''Friday''), (5, ''Saturday''), (6, ''Sunday'')]"

text \<open>
  The derived columns, each computed from the \<open>Order_Date\<close> column; \<open>Series.map\<close> with a
  dictionary leaves a missing value (\<open>None\<close>) where the key is absent.
\<close>

definition add_derived :: "raw_sale \<Rightarrow> sale" where
  "add_derived r =
     raw_sale.extend r
       \<lparr> Order_Month = dt_month (Order_Date r),
         Order_DayOfWeek = dt_dayofweek (Order_Date r),
         Order_Quarter = dt_quarter (Order_Date r),
         Order_DayName = map_of day_names (dt_dayofweek (Order_Date r)) \<rparr>"

definition generate_amazon_sales_data :: "nat \<Rightarrow> (nat \<Rightarrow> draws) \<Rightarrow> sale list" where
  "generate_amazon_sales_data n_records rng = map add_derived (gen_loop n_records rng)"

section \<open>Series and data frame operations\<close>



definition mean_of :: "real list \<Rightarrow> real" where
  "mean_of xs = sum_list xs / real (length xs)"














text \<open>
  One entry of \<open>DataFrame.corr()\<close>, the Pearson coefficient of two columns of equal
  length with \<open>min_periods = 1\<close>: missing when there is no row or the divisor is zero.
\<close>

definition pearson :: "real list \<Rightarrow> real list \<Rightarrow> real option" where
  "pearson xs ys =
     (if xs = [] then None
      else
        let meanx = mean_of xs; meany = mean_of ys;
            ssqdmx = sum_list (map (\<lambda>x. (x - meanx) * (x - meanx)) xs);
            ssqdmy = sum_list (map (\<lambda>y. (y - meany) * (y - meany)) ys);
            covxy = sum_list (map (\<lambda>(x, y). (x - meanx) * (y - meany)) (zip xs ys));
            divisor = sqrt (ssqdmx * ssqdmy)
        in if divisor \<noteq> 0 then Some (covxy / divisor) else None)"

section \<open>The dashboard\<close>

record filter_spec =
  selected_category :: string
  selected_city :: string
  selected_segment :: string
  start_date :: date
  end_date :: date

definition filter_category :: "string \<Rightarrow> sale list \<Rightarrow> sale list" where
  "filter_category sel fdf =
     (if sel \<noteq> ''All'' then filter (\<lambda>r. Category r = sel) fdf else fdf)"

definition filter_city :: "string \<Rightarrow> sale list \<Rightarrow> sale list" where
  "filter_city sel fdf =
     (if sel \<noteq> ''All'' then filter (\<lambda>r. City r = sel) fdf else fdf)"

definition filter_segment :: "string \<Rightarrow> sale list \<Rightarrow> sale list" where
  "filter_segment sel fdf =
     (if sel \<noteq> ''All'' then filter (\<lambda>r. Customer_Segment r = sel) fdf else fdf)"

definition filter_dates :: "date \<Rightarrow> date \<Rightarrow> sale list \<Rightarrow> sale list" where
  "filter_dates start end fdf =
     filter (\<lambda>r. start \<le> Order_Date r \<and> Order_Date r \<le> end) fdf"

definition apply_filters :: "sale list \<Rightarrow> filter_spec \<Rightarrow> sale list" where
  "apply_filters df sel =
     filter_dates (start_date sel) (end_date sel)
       (filter_segment (selected_segment sel)
          (filter_city (selected_city sel)
             (filter_category (selected_category sel) df)))"

subsection \<open>Key performance indicators\<close>






subsection \<open>Grouped views and distributions\<close>














definition numeric_cols :: "(string \<times> (sale \<Rightarrow> real)) list" where
  "numeric_cols =
     [(''Product_Price'', Product_Price),
      (''Quantity'', \<lambda>r. of_int (Quantity r)),
      (''Discount_Percent'', \<lambda>r. of_int (Discount_Percent r)),
      (''Final_Price'', Final_Price),
      (''Customer_Rating'', \<lambda>r. of_int (Customer_Rating r)),
      (''Delivery_Days'', \<lambda>r. of_int (Delivery_Days r)),
      (''Profit_Margin'', Profit_Margin)]"

definition corr_matrix :: "sale list \<Rightarrow> real option list list" where
  "corr_matrix fdf =
     map (\<lambda>ci. map (\<lambda>cj. pearson (map (snd ci) fdf) (map (snd cj) fdf)) numeric_cols)
       numeric_cols"

subsection \<open>Key insights\<close>




section \<open>A small data set\<close>

text \<open>
  Two iterations of the generator on explicit draws, and some filter selections, for
  evaluating the definitions on concrete rows. The first price is 100.004 and the first
  order date is 2023-01-02.
\<close>

definition draws_a :: draws where
  "draws_a =
     \<lparr> d_category = ''Books'', d_subcategory = ''Fiction'', d_price = 1 / 475000,
       d_quantity = 5, d_discount_percent = 0, d_rating = 4, d_review_length = ''Short'',
       d_delivery_days = 3, d_delivery_status = ''On Time'', d_return_status = ''No'',
       d_customer_segment = ''Prime'', d_payment_method = ''UPI'', d_city = ''Delhi'',
       d_order_offset = 1, d_profit = 1 / 2 \<rparr>"

definition draws_b :: draws where
  "draws_b =
     \<lparr> d_category = ''Electronics'', d_subcategory = ''Laptops'', d_price = 1 / 2,
       d_quantity = 1, d_discount_percent = 10, d_rating = 5, d_review_length = ''Long'',
       d_delivery_days = 7, d_delivery_status = ''Delayed'', d_return_status = ''Yes'',
       d_customer_segment = ''New'', d_payment_method = ''Credit Card'', d_city = ''Mumbai'',
       d_order_offset = 40, d_profit = 0 \<rparr>"

definition example_rng :: "nat \<Rightarrow> draws" where
  "example_rng i = (if i = 0 then draws_a else draws_b)"

definition example_df :: "sale list" where
  "example_df = generate_amazon_sales_data 2 example_rng"

definition sale_a :: sale where
  "sale_a = add_derived (make_record 0 draws_a)"

definition sale_b :: sale where
  "sale_b = add_derived (make_record 1 draws_b)"

definition sel_mumbai :: filter_spec where
  "sel_mumbai =
     \<lparr> selected_category = ''All'', selected_city = ''Mumbai'', selected_segment = ''All'',
       start_date = ymd2ord 2023 1 1, end_date = ymd2ord 2023 12 31 \<rparr>"

definition sel_reversed :: filter_spec where
  "sel_reversed =
     \<lparr> selected_category = ''All'', selected_city = ''All'', selected_segment = ''All'',
       start_date = ymd2ord 2023 12 31, end_date = ymd2ord 2023 1 1 \<rparr>"


section \<open>Evaluating the small data set\<close>

lemma gen_start_date_ord: "gen_start_date = 738521"
  by (simp add: gen_start_date_def ymd2ord_def days_before_year_def days_before_month_def
      DAYS_BEFORE_MONTH_def Let_def)

lemma ymd_2023_1_1: "ymd2ord 2023 1 1 = 738521"
  using gen_start_date_ord by (simp add: gen_start_date_def)

lemma ymd_2023_1_2: "ymd2ord 2023 1 2 = 738522"
  by (simp add: ymd2ord_def days_before_year_def days_before_month_def
      DAYS_BEFORE_MONTH_def Let_def)

lemma ymd_2023_12_31: "ymd2ord 2023 12 31 = 738885"
  by (simp add: ymd2ord_def days_before_year_def days_before_month_def
      DAYS_BEFORE_MONTH_def Let_def is_leap_def)

lemma month_738522: "dt_month 738522 = 1"
  by (simp add: dt_month_def ord2ymd_def Let_def DAYS_BEFORE_MONTH_def DAYS_IN_MONTH_def)

lemma dow_738522: "dt_dayofweek 738522 = 0"
  by (simp add: dt_dayofweek_def)

lemma example_df_rows: "example_df = [sale_a, sale_b]"
  by (simp add: example_df_def generate_amazon_sales_data_def numeral_2_eq_2 example_rng_def
      sale_a_def sale_b_def)

lemma sale_a_fields:
  "Category sale_a = ''Books''" "City sale_a = ''Delhi''" "Customer_Segment sale_a = ''Prime''"
  "Order_Date sale_a = 738522" "Delivery_Date sale_a = 738525" "Delivery_Days sale_a = 3"
  by (simp_all add: sale_a_def add_derived_def make_record_def draws_a_def raw_sale.defs
      order_date_of_def delivery_date_of_def timedelta_add_def gen_start_date_ord)

lemma sale_b_fields:
  "Category sale_b = ''Electronics''" "City sale_b = ''Mumbai''"
  "Customer_Segment sale_b = ''New''" "Order_Date sale_b = 738561"
  by (simp_all add: sale_b_def add_derived_def make_record_def draws_b_def raw_sale.defs
      order_date_of_def timedelta_add_def gen_start_date_ord)

section \<open>The generator's records\<close>

lemma set_gen_loop: "set (gen_loop n rng) = (\<lambda>i. make_record i (rng i)) ` {..<n}"
  by (induction n) (auto simp: lessThan_Suc)

lemma set_generate:
  "set (generate_amazon_sales_data n rng) = (\<lambda>i. add_derived (make_record i (rng i))) ` {..<n}"
  by (simp add: generate_amazon_sales_data_def set_gen_loop image_image)

lemma add_derived_raw:
  "Order_Date (add_derived r) = Order_Date r"
  "Delivery_Date (add_derived r) = Delivery_Date r"
  "Delivery_Days (add_derived r) = Delivery_Days r"
  "Final_Price (add_derived r) = Final_Price r"
  "Product_Price (add_derived r) = Product_Price r"
  "Discount_Amount (add_derived r) = Discount_Amount r"
  "Quantity (add_derived r) = Quantity r"
  "Discount_Percent (add_derived r) = Discount_Percent r"
  by (simp_all add: add_derived_def raw_sale.defs)

lemma add_derived_cols:
  "Order_Month (add_derived r) = dt_month (Order_Date r)"
  "Order_DayOfWeek (add_derived r) = dt_dayofweek (Order_Date r)"
  "Order_Quarter (add_derived r) = dt_quarter (Order_Date r)"
  "Order_DayName (add_derived r) = map_of day_names (dt_dayofweek (Order_Date r))"
  by (simp_all add: add_derived_def raw_sale.defs)

lemma make_record_delivery:
  "Delivery_Date (make_record i d) =
     timedelta_add (Order_Date (make_record i d)) (Delivery_Days (make_record i d))"
  by (simp add: make_record_def delivery_date_of_def)

section \<open>The filter\<close>

lemma filter_conj_all:
  "filter_dates s e (filter_segment g (filter_city c (filter_category k df))) =
     filter (\<lambda>r. (k \<noteq> ''All'' \<longrightarrow> Category r = k) \<and>
                 (c \<noteq> ''All'' \<longrightarrow> City r = c) \<and>
                 (g \<noteq> ''All'' \<longrightarrow> Customer_Segment r = g) \<and>
                 s \<le> Order_Date r \<and> Order_Date r \<le> e) df"
  unfolding filter_dates_def filter_segment_def filter_city_def filter_category_def
  by (auto intro: filter_cong)

lemma apply_filters_subset: "set (apply_filters df sel) \<subseteq> set df"
  unfolding apply_filters_def filter_conj_all by auto

text \<open>
  Claim C3. For every data set and every filter selection, the filtered frame is exactly
  the rows of the data set, in their order, for which every selector other than
  \<open>All\<close> equals the row's field and the order date lies between the start date and the
  end date, both included; the conditions are joined by conjunction.
\<close>

theorem apply_filters_exact:
  "apply_filters df sel =
     filter (\<lambda>r. (selected_category sel \<noteq> ''All'' \<longrightarrow> Category r = selected_category sel) \<and>
                 (selected_city sel \<noteq> ''All'' \<longrightarrow> City r = selected_city sel) \<and>
                 (selected_segment sel \<noteq> ''All'' \<longrightarrow>
                    Customer_Segment r = selected_segment sel) \<and>
                 start_date sel \<le> Order_Date r \<and> Order_Date r \<le> end_date sel) df"
  unfolding apply_filters_def by (rule filter_conj_all)

theorem apply_filters_exact_witness:
  "apply_filters example_df sel_mumbai = [sale_b]"
  using apply_filters_exact[of example_df sel_mumbai]
  by (simp add: example_df_rows sel_mumbai_def sale_a_fields sale_b_fields ymd_2023_1_1
      ymd_2023_12_31)

text \<open>
  Claim C4. For every data set, a selection whose start date is strictly after its end
  date leaves no row.
\<close>

theorem start_after_end_empty:
  "end_date sel < start_date sel \<Longrightarrow> apply_filters df sel = []"
  unfolding apply_filters_def filter_dates_def by (auto simp: filter_empty_conv)

theorem start_after_end_empty_witness:
  "end_date sel_reversed < start_date sel_reversed \<and> example_df \<noteq> [] \<and>
   apply_filters example_df sel_reversed = []"
proof -
  have lt: "end_date sel_reversed < start_date sel_reversed"
    by (simp add: sel_reversed_def ymd_2023_1_1 ymd_2023_12_31)
  from start_after_end_empty[OF lt] lt show ?thesis
    by (simp add: example_df_rows)
qed

text \<open>
  Claim C5. For every data set, the category filter followed by the city filter gives
  the same rows as the city filter followed by the category filter.
\<close>

theorem category_city_commute:
  "filter_city city (filter_category category df) =
   filter_category category (filter_city city df)"
  unfolding filter_city_def filter_category_def by (auto intro: filter_cong)

theorem category_city_commute_witness:
  "filter_city ''Mumbai'' (filter_category ''Electronics'' example_df) = [sale_b] \<and>
   filter_category ''Electronics'' (filter_city ''Mumbai'' example_df) = [sale_b]"
proof -
  have "filter_city ''Mumbai'' (filter_category ''Electronics'' example_df) = [sale_b]"
    by (simp add: filter_city_def filter_category_def example_df_rows sale_a_fields
        sale_b_fields)
  with category_city_commute[of "''Mumbai''" "''Electronics''" example_df]
  show ?thesis by simp
qed

section \<open>Invariants of the generated records\<close>

text \<open>
  Claim C7. For every record count and every sequence of draws, each generated record
  has its delivery date equal to its order date plus its delivery days, and so has each
  row the filter of the dashboard keeps.
\<close>

theorem delivery_date_invariant:
  assumes "df = generate_amazon_sales_data n rng"
  shows "(\<forall>r \<in> set df. Delivery_Date r = timedelta_add (Order_Date r) (Delivery_Days r)) \<and>
         (\<forall>r \<in> set (apply_filters df sel).
            Delivery_Date r = timedelta_add (Order_Date r) (Delivery_Days r))"
proof -
  have a: "\<forall>r \<in> set df. Delivery_Date r = timedelta_add (Order_Date r) (Delivery_Days r)"
    unfolding assms set_generate by (auto simp: make_record_delivery add_derived_raw)
  then show ?thesis using apply_filters_subset[of df sel] by blast
qed

theorem delivery_date_invariant_witness:
  "sale_a \<in> set example_df \<and> Order_Date sale_a = 738522 \<and> Delivery_Days sale_a = 3 \<and>
   Delivery_Date sale_a = 738525 \<and>
   Delivery_Date sale_a = timedelta_add (Order_Date sale_a) (Delivery_Days sale_a)"
proof -
  have m: "sale_a \<in> set example_df"
    by (simp add: example_df_rows)
  from delivery_date_invariant[OF example_df_def, of sel_mumbai] m
  have "Delivery_Date sale_a = timedelta_add (Order_Date sale_a) (Delivery_Days sale_a)"
    by blast
  with m show ?thesis by (simp add: sale_a_fields)
qed

text \<open>
  Claim C9. In every generated record the columns \<open>Order_Month\<close>, \<open>Order_DayOfWeek\<close>,
  \<open>Order_Quarter\<close> and \<open>Order_DayName\<close> are fixed functions of the record's order date
  and of nothing else; a record whose order date is 2023-01-02 has the day name Monday,
  the month 1 and the quarter 1.
\<close>

theorem derived_columns_of_order_date:
  assumes "r \<in> set (generate_amazon_sales_data n rng)"
  shows "Order_Month r = dt_month (Order_Date r) \<and>
         Order_DayOfWeek r = dt_dayofweek (Order_Date r) \<and>
         Order_Quarter r = dt_quarter (Order_Date r) \<and>
         Order_DayName r = map_of day_names (dt_dayofweek (Order_Date r)) \<and>
         (Order_Date r = ymd2ord 2023 1 2 \<longrightarrow>
            Order_DayName r = Some ''Monday'' \<and> Order_Month r = 1 \<and> Order_Quarter r = 1)"
proof -
  from assms obtain i where r: "r = add_derived (make_record i (rng i))"
    unfolding set_generate by blast
  have cols: "Order_Month r = dt_month (Order_Date r)"
    "Order_DayOfWeek r = dt_dayofweek (Order_Date r)"
    "Order_Quarter r = dt_quarter (Order_Date r)"
    "Order_DayName r = map_of day_names (dt_dayofweek (Order_Date r))"
    unfolding r by (simp_all add: add_derived_cols add_derived_raw)
  have "Order_DayName r = Some ''Monday'' \<and> Order_Month r = 1 \<and> Order_Quarter r = 1"
    if "Order_Date r = ymd2ord 2023 1 2"
    using that unfolding cols
    by (simp add: ymd_2023_1_2 month_738522 dow_738522 dt_quarter_def day_names_def)
  with cols show ?thesis by blast
qed

theorem derived_columns_of_order_date_witness:
  "sale_a \<in> set (generate_amazon_sales_data 2 example_rng) \<and>
   Order_Date sale_a = ymd2ord 2023 1 2 \<and>
   Order_DayName sale_a = Some ''Monday'' \<and> Order_Month sale_a = 1 \<and> Order_Quarter sale_a = 1"
proof -
  have m: "sale_a \<in> set (generate_amazon_sales_data 2 example_rng)"
    by (simp add: example_df_def[symmetric] example_df_rows)
  have d: "Order_Date sale_a = ymd2ord 2023 1 2"
    by (simp add: sale_a_fields ymd_2023_1_2)
  from derived_columns_of_order_date[OF m] d
  have "Order_DayName sale_a = Some ''Monday'' \<and> Order_Month sale_a = 1 \<and>
        Order_Quarter sale_a = 1"
    by blast
  with m d show ?thesis by blast
qed

section \<open>Rounding and the final price\<close>




lemma round_half_even_ge_int: "of_int k \<le> x \<Longrightarrow> k \<le> round_half_even x"
proof -
  assume "of_int k \<le> x"
  then have "k \<le> \<lfloor>x\<rfloor>" by (simp add: le_floor_iff)
  then show ?thesis unfolding round_half_even_def Let_def by simp
qed

lemma round2_ge_int: "of_int k \<le> x \<Longrightarrow> of_int k \<le> round2 x"
proof -
  assume "of_int k \<le> x"
  then have "of_int (k * 100) \<le> x * 100" by simp
  then have "k * 100 \<le> round_half_even (x * 100)" by (rule round_half_even_ge_int)
  then have "of_int (k * 100) \<le> (of_int (round_half_even (x * 100)) :: real)"
    by (simp only: of_int_le_iff)
  then show ?thesis unfolding round2_def by simp
qed

lemma price_of_lower: "0 \<le> d_price d \<Longrightarrow> 100 \<le> price_of d"
  unfolding price_of_def np_uniform_def by auto

lemma valid_draws_price: "valid_draws d \<Longrightarrow> 0 \<le> d_price d"
  by (simp add: valid_draws_def)

lemma valid_draws_quantity: "valid_draws d \<Longrightarrow> 1 \<le> d_quantity d"
  by (simp add: valid_draws_def)

lemma valid_draws_discount:
  assumes "valid_draws d"
  shows "0 \<le> d_discount_percent d \<and> d_discount_percent d \<le> 30"
proof -
  have "d_discount_percent d \<in> set [0, 5, 10, 15, 20, 25, 30]"
    using assms unfolding valid_draws_def by (elim conjE)
  then show ?thesis by auto
qed

lemma final_price_of_factored:
  "final_price_of d =
     price_of d * of_int (d_quantity d) * (1 - of_int (d_discount_percent d) / 100)"
  by (simp add: final_price_of_def discount_amount_of_def algebra_simps)

lemma final_price_of_lower:
  assumes "valid_draws d"
  shows "70 \<le> final_price_of d"
proof -
  have p: "100 \<le> price_of d" using assms by (simp add: valid_draws_price price_of_lower)
  have q: "1 \<le> (of_int (d_quantity d) :: real)" using valid_draws_quantity[OF assms] by simp
  have dp: "(of_int (d_discount_percent d) :: real) \<le> 30"
    using valid_draws_discount[OF assms] by simp
  have pq: "100 * 1 \<le> price_of d * of_int (d_quantity d)"
  proof (rule mult_mono[OF p q])
    show "0 \<le> price_of d" using p by simp
    show "(0::real) \<le> 1" by simp
  qed
  have f: "7 / 10 \<le> 1 - (of_int (d_discount_percent d) :: real) / 100" using dp by simp
  have "100 * 1 * (7 / 10) \<le>
        price_of d * of_int (d_quantity d) * (1 - of_int (d_discount_percent d) / 100)"
  proof (rule mult_mono[OF pq f])
    show "0 \<le> price_of d * of_int (d_quantity d)" using pq by simp
    show "(0::real) \<le> 7 / 10" by simp
  qed
  then show ?thesis by (simp add: final_price_of_factored)
qed

lemma make_record_final_ge: "valid_draws d \<Longrightarrow> 70 \<le> Final_Price (make_record i d)"
  using round2_ge_int[of 70 "final_price_of d"] final_price_of_lower[of d]
  by (simp add: make_record_def)

lemma valid_draws_a: "valid_draws draws_a"
  by (simp add: valid_draws_def draws_a_def categories_def payment_methods_def
      customer_segments_def cities_def)

lemma valid_draws_b: "valid_draws draws_b"
  by (simp add: valid_draws_def draws_b_def categories_def payment_methods_def
      customer_segments_def cities_def)

lemma example_rng_valid: "\<forall>i < 2. valid_draws (example_rng i)"
  by (simp add: example_rng_def valid_draws_a valid_draws_b)

text \<open>
  Claim C10. For every generated record whose draws lie in the supports of their calls,
  the stored final price is strictly positive: the price is at least 100, the quantity
  at least 1 and the discount at most 30 percent, so the final price is at least 70
  before and after rounding.
\<close>

theorem final_price_positive:
  assumes "\<forall>i < n. valid_draws (rng i)"
    and "r \<in> set (generate_amazon_sales_data n rng)"
  shows "0 < Final_Price r"
proof -
  from assms(2) obtain i where i: "i < n" and r: "r = add_derived (make_record i (rng i))"
    unfolding set_generate by blast
  from assms(1) i have "valid_draws (rng i)" by blast
  then have "70 \<le> Final_Price (make_record i (rng i))" by (rule make_record_final_ge)
  then show ?thesis unfolding r by (simp add: add_derived_raw)
qed

theorem final_price_positive_witness:
  "valid_draws (example_rng 0) \<and> valid_draws (example_rng 1) \<and>
   sale_b \<in> set (generate_amazon_sales_data 2 example_rng) \<and> 0 < Final_Price sale_b"
proof -
  have m: "sale_b \<in> set (generate_amazon_sales_data 2 example_rng)"
    by (simp add: example_df_def[symmetric] example_df_rows)
  from final_price_positive[OF example_rng_valid m] m show ?thesis
    by (simp add: example_rng_def valid_draws_a valid_draws_b)
qed

lemma length_gen_loop: "length (gen_loop n rng) = n"
  by (induction n) simp_all



lemma length_generate: "length (generate_amazon_sales_data n rng) = n"
  by (simp add: generate_amazon_sales_data_def length_gen_loop)







section \<open>Grouped sums\<close>










section \<open>The correlation matrix\<close>

lemma zip_swap: "zip ys xs = map (\<lambda>(x, y). (y, x)) (zip xs ys)"
  by (induction xs ys rule: list_induct2') auto

lemma covxy_sym:
  "sum_list (map (\<lambda>(x, y). (x - a) * (y - b)) (zip xs ys)) =
   (sum_list (map (\<lambda>(y, x). (y - b) * (x - a)) (zip ys xs)) :: real)"
  unfolding zip_swap[of ys xs] by (simp add: comp_def case_prod_unfold mult.commute)

lemma pearson_sym: "length xs = length ys \<Longrightarrow> pearson xs ys = pearson ys xs"
proof -
  assume l: "length xs = length ys"
  then have e: "(xs = []) = (ys = [])" by auto
  show ?thesis
    unfolding pearson_def Let_def e
    by (simp add: covxy_sym[of "mean_of xs" "mean_of ys" xs ys] mult.commute)
qed

lemma covxx:
  "sum_list (map (\<lambda>(x, y). (x - a) * (y - a)) (zip xs xs)) =
   (sum_list (map (\<lambda>x. (x - a) * (x - a)) xs) :: real)"
  by (induction xs) auto

lemma sum_sq_nonneg: "0 \<le> (sum_list (map (\<lambda>x. (x - a) * (x - a)) xs) :: real)"
  by (induction xs) auto

lemma sum_sq_zero_iff:
  "(sum_list (map (\<lambda>x. (x - a) * (x - a)) xs) = (0::real)) = (\<forall>x \<in> set xs. x = a)"
proof (induction xs)
  case Nil
  then show ?case by simp
next
  case (Cons x xs)
  have "0 \<le> (x - a) * (x - a)" by simp
  then show ?case using Cons sum_sq_nonneg[of a xs]
    by (auto simp: add_nonneg_eq_0_iff)
qed

lemma mean_of_const: "xs \<noteq> [] \<Longrightarrow> \<forall>x \<in> set xs. x = c \<Longrightarrow> mean_of xs = c"
proof -
  assume ne: "xs \<noteq> []" and c: "\<forall>x \<in> set xs. x = c"
  have "sum_list xs = real (length xs) * c" using c by (induction xs) (auto simp: algebra_simps)
  then show ?thesis using ne by (simp add: mean_of_def)
qed

lemma ssq_zero_iff_const:
  "(sum_list (map (\<lambda>x. (x - mean_of xs) * (x - mean_of xs)) xs) = 0) =
   (\<forall>x \<in> set xs. \<forall>y \<in> set xs. x = y)"
proof
  assume "sum_list (map (\<lambda>x. (x - mean_of xs) * (x - mean_of xs)) xs) = 0"
  then have "\<forall>x \<in> set xs. x = mean_of xs" by (simp add: sum_sq_zero_iff)
  then show "\<forall>x \<in> set xs. \<forall>y \<in> set xs. x = y" by metis
next
  assume a: "\<forall>x \<in> set xs. \<forall>y \<in> set xs. x = y"
  show "sum_list (map (\<lambda>x. (x - mean_of xs) * (x - mean_of xs)) xs) = 0"
  proof (cases xs)
    case Nil
    then show ?thesis by simp
  next
    case (Cons z zs)
    then have "\<forall>x \<in> set xs. x = z" using a by auto
    moreover from this have "mean_of xs = z" using Cons by (intro mean_of_const) auto
    ultimately show ?thesis by (simp add: sum_sq_zero_iff)
  qed
qed

lemma pearson_diag:
  "pearson xs xs = (if \<exists>x \<in> set xs. \<exists>y \<in> set xs. x \<noteq> y then Some 1 else None)"
proof (cases "\<exists>x \<in> set xs. \<exists>y \<in> set xs. x \<noteq> y")
  case True
  define s where "s = sum_list (map (\<lambda>x. (x - mean_of xs) * (x - mean_of xs)) xs)"
  have ne: "xs \<noteq> []" using True by auto
  have "s \<noteq> 0" unfolding s_def ssq_zero_iff_const using True by blast
  moreover have "0 \<le> s" unfolding s_def by (rule sum_sq_nonneg)
  ultimately have pos: "0 < s" by simp
  have sq: "sqrt (s * s) = s" using pos by simp
  have "pearson xs xs = Some 1"
    unfolding pearson_def Let_def covxx s_def[symmetric] sq using ne pos by simp
  then show ?thesis using True by simp
next
  case False
  then have "sum_list (map (\<lambda>x. (x - mean_of xs) * (x - mean_of xs)) xs) = 0"
    unfolding ssq_zero_iff_const by blast
  then have "pearson xs xs = None"
    unfolding pearson_def Let_def covxx by simp
  then show ?thesis using False by simp
qed

lemma pearson_single: "pearson [x] [y] = None"
  by (simp add: pearson_def mean_of_def)

lemma length_numeric_cols: "length numeric_cols = 7"
  by (simp add: numeric_cols_def)

lemma corr_matrix_nth:
  "i < length numeric_cols \<Longrightarrow> j < length numeric_cols \<Longrightarrow>
   corr_matrix fdf ! i ! j =
     pearson (map (snd (numeric_cols ! i)) fdf) (map (snd (numeric_cols ! j)) fdf)"
  by (simp add: corr_matrix_def)

lemma example_filtered_mumbai: "apply_filters example_df sel_mumbai = [sale_b]"
  unfolding apply_filters_def filter_conj_all
  by (simp add: example_df_rows sel_mumbai_def sale_a_fields sale_b_fields ymd_2023_1_1
      ymd_2023_12_31)

lemma sale_quantities: "Quantity sale_a = 5" "Quantity sale_b = 1"
  by (simp_all add: sale_a_def sale_b_def add_derived_raw make_record_def draws_a_def
      draws_b_def)

text \<open>
  Claim C8, as stated, fails on a filtered frame of one row: every column is constant
  there, the divisor is zero, and the diagonal entries are missing, not 1.
\<close>

theorem corr_diagonal_counterexample:
  "apply_filters example_df sel_mumbai \<noteq> [] \<and>
   corr_matrix (apply_filters example_df sel_mumbai) ! 0 ! 0 \<noteq> Some 1"
  by (simp add: example_filtered_mumbai corr_matrix_def numeric_cols_def pearson_single)

text \<open>
  Claim C8, amended. For every filtered frame the correlation matrix over the seven
  numeric columns is symmetric, and a diagonal entry is 1 when the column takes at least
  two different values in the frame and is missing otherwise.
\<close>

theorem corr_matrix_symmetric_diagonal:
  assumes "i < length numeric_cols" and "j < length numeric_cols"
  shows "corr_matrix fdf ! i ! j = corr_matrix fdf ! j ! i \<and>
         corr_matrix fdf ! i ! i =
           (if \<exists>r \<in> set fdf. \<exists>r' \<in> set fdf.
                 snd (numeric_cols ! i) r \<noteq> snd (numeric_cols ! i) r'
            then Some 1 else None)"
proof -
  have "corr_matrix fdf ! i ! j = corr_matrix fdf ! j ! i"
    using assms by (simp add: corr_matrix_nth pearson_sym)
  moreover have "corr_matrix fdf ! i ! i =
           (if \<exists>r \<in> set fdf. \<exists>r' \<in> set fdf.
                 snd (numeric_cols ! i) r \<noteq> snd (numeric_cols ! i) r'
            then Some 1 else None)"
    using assms(1) by (simp add: corr_matrix_nth pearson_diag)
  ultimately show ?thesis by blast
qed

theorem corr_matrix_symmetric_diagonal_witness:
  "(1::nat) < length numeric_cols \<and> (3::nat) < length numeric_cols \<and>
   corr_matrix example_df ! 1 ! 3 = corr_matrix example_df ! 3 ! 1 \<and>
   corr_matrix example_df ! 1 ! 1 = Some 1"
proof -
  have i: "(1::nat) < length numeric_cols" and j: "(3::nat) < length numeric_cols"
    by (simp_all add: length_numeric_cols)
  have c: "snd (numeric_cols ! 1) = (\<lambda>r. of_int (Quantity r))"
    by (simp add: numeric_cols_def)
  have m: "sale_a \<in> set example_df" "sale_b \<in> set example_df"
    by (simp_all add: example_df_rows)
  have "snd (numeric_cols ! 1) sale_a \<noteq> snd (numeric_cols ! 1) sale_b"
    unfolding c by (simp add: sale_quantities)
  with m have d: "\<exists>r \<in> set example_df. \<exists>r' \<in> set example_df.
             snd (numeric_cols ! 1) r \<noteq> snd (numeric_cols ! 1) r'"
    by blast
  from corr_matrix_symmetric_diagonal[OF i j, of example_df] d i j show ?thesis
    by simp
qed

section \<open>Views of an empty frame\<close>






end
